theory Spec2Isabelle
  imports Complex_Main
begin

section \<open>JavaScript values\<close>

text \<open>
  The validators take arguments of TypeScript type \<open>any\<close>. A value is modelled as one
  of the values a parsed JSON document or a property read on one can be. A number is a
  rational, one of the two infinities, or NaN (every finite double is a rational, and
  the two zeros are not distinguished: no operation used here tells them apart).
  A string is a list of code units, read in the Latin-1 range. An object is a plain
  object, given as the list of its own enumerable properties in the order
  \<open>Object.keys\<close> reports them. A function is a built-in function, identified by its
  name: the only functions met here are the members a plain object inherits from
  \<open>Object.prototype\<close>.
\<close>

datatype jsnum = NaN | NegInf | Fin rat | PosInf

datatype jsval =
    JUndefined
  | JNull
  | JBool bool
  | JNum jsnum
  | JStr string
  | JArr "jsval list"
  | JObj "(string \<times> jsval) list"
  | JFunction string

datatype jstype = TUndefined | TObject | TBoolean | TNumber | TString | TFunction

text \<open>The \<open>typeof\<close> operator: \<open>null\<close>, arrays and objects are of type object.\<close>

fun typeof :: "jsval \<Rightarrow> jstype" where
  "typeof JUndefined = TUndefined"
| "typeof JNull = TObject"
| "typeof (JBool b) = TBoolean"
| "typeof (JNum n) = TNumber"
| "typeof (JStr s) = TString"
| "typeof (JArr xs) = TObject"
| "typeof (JObj kvs) = TObject"
| "typeof (JFunction n) = TFunction"

text \<open>The relational operator \<open><\<close> on numbers: false as soon as one side is NaN.\<close>

fun num_lt :: "jsnum \<Rightarrow> jsnum \<Rightarrow> bool" where
  "num_lt NaN b = False"
| "num_lt a NaN = False"
| "num_lt (Fin a) (Fin b) = (a < b)"
| "num_lt NegInf NegInf = False"
| "num_lt NegInf b = True"
| "num_lt (Fin a) PosInf = True"
| "num_lt a b = False"

text \<open>Truthiness of a number: zero and NaN are falsy.\<close>

definition num_truthy :: "jsnum \<Rightarrow> bool" where
  "num_truthy n = (n \<noteq> NaN \<and> n \<noteq> Fin 0)"

text \<open>Truthiness of a value, as \<open>||\<close> and \<open>if\<close> read it.\<close>

fun truthy :: "jsval \<Rightarrow> bool" where
  "truthy JUndefined = False"
| "truthy JNull = False"
| "truthy (JBool b) = b"
| "truthy (JNum n) = num_truthy n"
| "truthy (JStr s) = (s \<noteq> [])"
| "truthy (JArr xs) = True"
| "truthy (JObj kvs) = True"
| "truthy (JFunction n) = True"

text \<open>
  \<open>Array.prototype.join\<close> on strings that are already converted, and the conversion
  of a value to a string. The rendering of a number (ECMAScript's Number::toString) is
  not code of this repository and is taken as the parameter \<open>ns\<close>. Inside \<open>join\<close>,
  \<open>null\<close> and \<open>undefined\<close> elements give the empty string. A built-in function
  converts to its source text, in the form V8 prints it.
\<close>

fun js_join :: "string \<Rightarrow> string list \<Rightarrow> string" where
  "js_join sep [] = []"
| "js_join sep [x] = x"
| "js_join sep (x # y # ys) = x @ sep @ js_join sep (y # ys)"

fun ToString :: "(jsnum \<Rightarrow> string) \<Rightarrow> jsval \<Rightarrow> string" where
  "ToString ns JUndefined = ''undefined''"
| "ToString ns JNull = ''null''"
| "ToString ns (JBool b) = (if b then ''true'' else ''false'')"
| "ToString ns (JNum n) = ns n"
| "ToString ns (JStr s) = s"
| "ToString ns (JArr xs) =
     js_join '','' (map (\<lambda>x. if x = JUndefined \<or> x = JNull then [] else ToString ns x) xs)"
| "ToString ns (JObj kvs) = ''[object Object]''"
| "ToString ns (JFunction n) = ''function '' @ n @ ''() { [native code] }''"

definition array_join :: "(jsnum \<Rightarrow> string) \<Rightarrow> string \<Rightarrow> jsval list \<Rightarrow> string" where
  "array_join ns sep xs =
     js_join sep (map (\<lambda>x. if x = JUndefined \<or> x = JNull then [] else ToString ns x) xs)"

text \<open>
  \<open>Array.prototype.includes\<close> compares with SameValueZero: primitives by value (NaN is
  equal to itself), objects, arrays and functions by reference. The validated data
  never shares an object or array with a rule's \<open>enum\<close> array, so an object or array
  is never found; a built-in function is the same reference wherever it is read.
\<close>

fun sameValueZero :: "jsval \<Rightarrow> jsval \<Rightarrow> bool" where
  "sameValueZero JUndefined JUndefined = True"
| "sameValueZero JNull JNull = True"
| "sameValueZero (JBool a) (JBool b) = (a = b)"
| "sameValueZero (JNum a) (JNum b) = (a = b)"
| "sameValueZero (JStr a) (JStr b) = (a = b)"
| "sameValueZero (JFunction a) (JFunction b) = (a = b)"
| "sameValueZero a b = False"

fun array_includes :: "jsval list \<Rightarrow> jsval \<Rightarrow> bool" where
  "array_includes [] v = False"
| "array_includes (x # xs) v = (sameValueZero x v \<or> array_includes xs v)"

text \<open>
  \<open>String.prototype.includes\<close>: the needle occurs at some position of the string.
\<close>

fun starts_with :: "string \<Rightarrow> string \<Rightarrow> bool" where
  "starts_with s [] = True"
| "starts_with [] (k # ks) = False"
| "starts_with (c # cs) (k # ks) = (c = k \<and> starts_with cs ks)"

fun str_includes :: "string \<Rightarrow> string \<Rightarrow> bool" where
  "str_includes [] k = (k = [])"
| "str_includes (c # cs) k = (starts_with (c # cs) k \<or> str_includes cs k)"

text \<open>
  \<open>String.prototype.trim\<close> removes white space at both ends; in the Latin-1 range the
  white space characters are tab, line feed, vertical tab, form feed, carriage return,
  space and the no-break space.
\<close>

definition is_whitespace :: "char \<Rightarrow> bool" where
  "is_whitespace c = (c \<in> set [CHR 0x09, CHR 0x0A, CHR 0x0B, CHR 0x0C, CHR 0x0D, CHR 0x20, CHR 0xA0])"

definition trim :: "string \<Rightarrow> string" where
  "trim s = rev (dropWhile is_whitespace (rev (dropWhile is_whitespace s)))"

text \<open>
  The members every plain object inherits from \<open>Object.prototype\<close>: eleven built-in
  functions, and the accessor \<open>__proto__\<close>, which reads as \<open>Object.prototype\<close>
  itself, an object with no enumerable property.
\<close>

definition object_prototype :: "(string \<times> jsval) list" where
  "object_prototype =
     [(''constructor'', JFunction ''Object''),
      (''__defineGetter__'', JFunction ''__defineGetter__''),
      (''__defineSetter__'', JFunction ''__defineSetter__''),
      (''hasOwnProperty'', JFunction ''hasOwnProperty''),
      (''__lookupGetter__'', JFunction ''__lookupGetter__''),
      (''__lookupSetter__'', JFunction ''__lookupSetter__''),
      (''isPrototypeOf'', JFunction ''isPrototypeOf''),
      (''propertyIsEnumerable'', JFunction ''propertyIsEnumerable''),
      (''toString'', JFunction ''toString''),
      (''valueOf'', JFunction ''valueOf''),
      (''toLocaleString'', JFunction ''toLocaleString''),
      (''__proto__'', JObj [])]"

text \<open>
  Property access \<open>obj[key]\<close> on a plain object: an own property first (on duplicate
  keys the first entry), then a member inherited from \<open>Object.prototype\<close>, else
  \<open>undefined\<close>. \<open>validateSchema\<close> reads properties of objects only.
  \<open>Object.keys(obj)\<close> lists the own enumerable properties.
\<close>

fun get_prop :: "jsval \<Rightarrow> string \<Rightarrow> jsval" where
  "get_prop (JObj kvs) k =
     (case map_of kvs k of
        Some v \<Rightarrow> v
      | None \<Rightarrow> (case map_of object_prototype k of Some v \<Rightarrow> v | None \<Rightarrow> JUndefined))"
| "get_prop v k = JUndefined"

fun object_keys :: "jsval \<Rightarrow> string list" where
  "object_keys (JObj kvs) = map fst kvs"
| "object_keys v = []"

section \<open>Type guards\<close>

definition isString :: "jsval \<Rightarrow> bool" where
  "isString v = (typeof v = TString)"

definition isNumber :: "jsval \<Rightarrow> bool" where
  "isNumber v = (typeof v = TNumber \<and> v \<noteq> JNum NaN)"

definition isBoolean :: "jsval \<Rightarrow> bool" where
  "isBoolean v = (typeof v = TBoolean)"

fun isArray :: "jsval \<Rightarrow> bool" where
  "isArray (JArr xs) = True"
| "isArray v = False"

definition isObject :: "jsval \<Rightarrow> bool" where
  "isObject v = (typeof v = TObject \<and> v \<noteq> JNull \<and> \<not> isArray v)"

definition isDefined :: "jsval \<Rightarrow> bool" where
  "isDefined v = (v \<noteq> JNull \<and> v \<noteq> JUndefined)"

fun isNonEmptyString :: "jsval \<Rightarrow> bool" where
  "isNonEmptyString (JStr s) = (length (trim s) > 0)"
| "isNonEmptyString v = False"

section \<open>Validation rules and results\<close>

datatype ruletype = TyString | TyNumber | TyBoolean | TyArray | TyObject

fun type_name :: "ruletype \<Rightarrow> string" where
  "type_name TyString = ''string''"
| "type_name TyNumber = ''number''"
| "type_name TyBoolean = ''boolean''"
| "type_name TyArray = ''array''"
| "type_name TyObject = ''object''"

text \<open>A custom validator returns a boolean or a string.\<close>

datatype custom_result = CBool bool | CStr string

text \<open>
  An optional member is an \<open>option\<close>; the optional booleans \<open>required\<close> and \<open>strict\<close>
  are only ever tested for truthiness, so an absent one is \<open>False\<close>. A pattern is the
  predicate its \<open>test\<close> method computes. The members \<open>type\<close>, \<open>min\<close>, \<open>max\<close>,
  \<open>enum\<close> and \<open>value\<close> carry a suffix here, and the \<open>field\<close> of a rule is \<open>rfield\<close>.
\<close>

record ValidationErrorDetail =
  field :: string
  message :: string
  value_d :: jsval

record ValidationResult =
  isValid :: bool
  errors :: "ValidationErrorDetail list"

record ValidationRule =
  rfield :: string
  required :: bool
  type_r :: "ruletype option"
  minLength :: "jsnum option"
  maxLength :: "jsnum option"
  min_r :: "jsnum option"
  max_r :: "jsnum option"
  pattern :: "(string \<Rightarrow> bool) option"
  enum_r :: "jsval list option"
  custom :: "(jsval \<Rightarrow> custom_result) option"

record ValidationSchema =
  rules :: "ValidationRule list"
  strict :: bool

section \<open>validateField\<close>

text \<open>The \<open>switch\<close> over \<open>rule.type\<close>.\<close>

fun isValidType :: "ruletype \<Rightarrow> jsval \<Rightarrow> bool" where
  "isValidType TyString v = isString v"
| "isValidType TyNumber v = isNumber v"
| "isValidType TyBoolean v = isBoolean v"
| "isValidType TyArray v = isArray v"
| "isValidType TyObject v = isObject v"

definition mk_error :: "ValidationRule \<Rightarrow> string \<Rightarrow> jsval \<Rightarrow> ValidationErrorDetail" where
  "mk_error rule msg v = \<lparr>field = rfield rule, message = msg, value_d = v\<rparr>"

text \<open>The string-specific checks: minimum length, maximum length, pattern.\<close>

fun string_checks :: "(jsnum \<Rightarrow> string) \<Rightarrow> jsval \<Rightarrow> ValidationRule \<Rightarrow> ValidationErrorDetail list" where
  "string_checks ns (JStr s) rule =
     (case minLength rule of
        Some m \<Rightarrow>
          if num_truthy m \<and> num_lt (Fin (of_nat (length s))) m
          then [mk_error rule (rfield rule @ '' must be at least '' @ ns m @ '' characters long'') (JStr s)]
          else []
      | None \<Rightarrow> [])
     @ (case maxLength rule of
        Some m \<Rightarrow>
          if num_truthy m \<and> num_lt m (Fin (of_nat (length s)))
          then [mk_error rule (rfield rule @ '' must be no more than '' @ ns m @ '' characters long'') (JStr s)]
          else []
      | None \<Rightarrow> [])
     @ (case pattern rule of
        Some p \<Rightarrow>
          if \<not> p s then [mk_error rule (rfield rule @ '' format is invalid'') (JStr s)] else []
      | None \<Rightarrow> [])"
| "string_checks ns v rule = []"

text \<open>The number-specific checks: they run on numbers other than NaN.\<close>

fun number_checks :: "(jsnum \<Rightarrow> string) \<Rightarrow> jsval \<Rightarrow> ValidationRule \<Rightarrow> ValidationErrorDetail list" where
  "number_checks ns (JNum n) rule =
     (if n = NaN then []
      else
        (case min_r rule of
           Some m \<Rightarrow>
             if num_lt n m then [mk_error rule (rfield rule @ '' must be at least '' @ ns m) (JNum n)] else []
         | None \<Rightarrow> [])
        @ (case max_r rule of
           Some m \<Rightarrow>
             if num_lt m n then [mk_error rule (rfield rule @ '' must be no more than '' @ ns m) (JNum n)] else []
         | None \<Rightarrow> []))"
| "number_checks ns v rule = []"

definition enum_check :: "(jsnum \<Rightarrow> string) \<Rightarrow> jsval \<Rightarrow> ValidationRule \<Rightarrow> ValidationErrorDetail list" where
  "enum_check ns v rule =
     (case enum_r rule of
        Some allowed \<Rightarrow>
          if \<not> array_includes allowed v
          then [mk_error rule (rfield rule @ '' must be one of: '' @ array_join ns '', '' allowed) v]
          else []
      | None \<Rightarrow> [])"

definition custom_check :: "jsval \<Rightarrow> ValidationRule \<Rightarrow> ValidationErrorDetail list" where
  "custom_check v rule =
     (case custom rule of
        Some f \<Rightarrow>
          (case f v of
             CBool True \<Rightarrow> []
           | CBool False \<Rightarrow> [mk_error rule (rfield rule @ '' is invalid'') v]
           | CStr s \<Rightarrow> [mk_error rule s v])
      | None \<Rightarrow> [])"

definition validateField :: "(jsnum \<Rightarrow> string) \<Rightarrow> jsval \<Rightarrow> ValidationRule \<Rightarrow> ValidationErrorDetail list" where
  "validateField ns v rule =
     (if required rule \<and> \<not> isDefined v then [mk_error rule (rfield rule @ '' is required'') v]
      else if \<not> required rule \<and> \<not> isDefined v then []
      else
        (case type_r rule of
           Some t \<Rightarrow>
             if \<not> isValidType t v
             then [mk_error rule (rfield rule @ '' must be of type '' @ type_name t) v]
             else string_checks ns v rule @ number_checks ns v rule
                  @ enum_check ns v rule @ custom_check v rule
         | None \<Rightarrow>
             string_checks ns v rule @ number_checks ns v rule
             @ enum_check ns v rule @ custom_check v rule))"

section \<open>validateSchema\<close>

definition unknown_fields :: "jsval \<Rightarrow> ValidationSchema \<Rightarrow> string list" where
  "unknown_fields dat schema =
     filter (\<lambda>f. f \<notin> set (map rfield (rules schema))) (object_keys dat)"

definition rule_errors :: "(jsnum \<Rightarrow> string) \<Rightarrow> jsval \<Rightarrow> ValidationSchema \<Rightarrow> ValidationErrorDetail list" where
  "rule_errors ns dat schema =
     concat (map (\<lambda>rule. validateField ns (get_prop dat (rfield rule)) rule) (rules schema))"

definition validateSchema :: "(jsnum \<Rightarrow> string) \<Rightarrow> jsval \<Rightarrow> ValidationSchema \<Rightarrow> ValidationResult" where
  "validateSchema ns dat schema =
     (if \<not> isObject dat
      then \<lparr>isValid = False,
            errors = [\<lparr>field = ''root'', message = ''Data must be an object'', value_d = dat\<rparr>]\<rparr>
      else
        let errs = rule_errors ns dat schema
                   @ (if strict schema
                      then map (\<lambda>f. \<lparr>field = f, message = ''Unknown field: '' @ f, value_d = get_prop dat f\<rparr>)
                               (unknown_fields dat schema)
                      else [])
        in \<lparr>isValid = (length errs = 0), errors = errs\<rparr>)"

section \<open>Domain validators\<close>

text \<open>
  \<open>parseInt(s, 10)\<close>: leading white space is skipped, then an optional sign, then the
  longest run of decimal digits; no digit gives NaN, which is \<open>None\<close> here.
\<close>

definition is_digit :: "char \<Rightarrow> bool" where
  "is_digit c = (48 \<le> (of_char c :: nat) \<and> (of_char c :: nat) \<le> 57)"

definition digits_value :: "string \<Rightarrow> nat" where
  "digits_value ds = foldl (\<lambda>acc c. 10 * acc + (of_char c - 48)) 0 ds"

definition parseInt10 :: "string \<Rightarrow> int option" where
  "parseInt10 s =
     (let s1 = dropWhile is_whitespace s;
          neg = (case s1 of c # cs \<Rightarrow> c = CHR ''-'' | [] \<Rightarrow> False);
          s2 = (case s1 of c # cs \<Rightarrow> if c = CHR ''-'' \<or> c = CHR ''+'' then cs else s1 | [] \<Rightarrow> s1);
          z = takeWhile is_digit s2
      in if z = [] then None
         else Some (if neg then - int (digits_value z) else int (digits_value z)))"

definition createItemSchema :: ValidationSchema where
  "createItemSchema =
     \<lparr>rules =
        [\<lparr>rfield = ''name'', required = True, type_r = Some TyString,
          minLength = Some (Fin 1), maxLength = Some (Fin 100), min_r = None, max_r = None,
          pattern = None, enum_r = None,
          custom = Some (\<lambda>v. if isNonEmptyString v then CBool True else CStr ''Name cannot be empty'')\<rparr>,
         \<lparr>rfield = ''description'', required = True, type_r = Some TyString,
          minLength = Some (Fin 1), maxLength = Some (Fin 500), min_r = None, max_r = None,
          pattern = None, enum_r = None,
          custom = Some (\<lambda>v. if isNonEmptyString v then CBool True
                               else CStr ''Description cannot be empty'')\<rparr>],
      strict = True\<rparr>"

definition validateCreateItemRequest :: "(jsnum \<Rightarrow> string) \<Rightarrow> jsval \<Rightarrow> ValidationResult" where
  "validateCreateItemRequest ns dat = validateSchema ns dat createItemSchema"

definition updateItemSchema :: ValidationSchema where
  "updateItemSchema =
     \<lparr>rules =
        [\<lparr>rfield = ''name'', required = False, type_r = Some TyString,
          minLength = Some (Fin 1), maxLength = Some (Fin 100), min_r = None, max_r = None,
          pattern = None, enum_r = None,
          custom = Some (\<lambda>v. if \<not> isDefined v \<or> isNonEmptyString v then CBool True
                               else CStr ''Name cannot be empty'')\<rparr>,
         \<lparr>rfield = ''description'', required = False, type_r = Some TyString,
          minLength = Some (Fin 1), maxLength = Some (Fin 500), min_r = None, max_r = None,
          pattern = None, enum_r = None,
          custom = Some (\<lambda>v. if \<not> isDefined v \<or> isNonEmptyString v then CBool True
                               else CStr ''Description cannot be empty'')\<rparr>,
         \<lparr>rfield = ''status'', required = False, type_r = Some TyString,
          minLength = None, maxLength = None, min_r = None, max_r = None,
          pattern = None, enum_r = Some [JStr ''active'', JStr ''inactive''],
          custom = None\<rparr>],
      strict = True\<rparr>"

definition validateUpdateItemRequest :: "(jsnum \<Rightarrow> string) \<Rightarrow> jsval \<Rightarrow> ValidationResult" where
  "validateUpdateItemRequest ns dat = validateSchema ns dat updateItemSchema"

definition validateItemId :: "jsval \<Rightarrow> ValidationResult" where
  "validateItemId ident =
     (let errs =
        (if \<not> isDefined ident
         then [\<lparr>field = ''id'', message = ''Item ID is required'', value_d = ident\<rparr>]
         else if \<not> isString ident
         then [\<lparr>field = ''id'', message = ''Item ID must be a string'', value_d = ident\<rparr>]
         else if \<not> isNonEmptyString ident
         then [\<lparr>field = ''id'', message = ''Item ID cannot be empty'', value_d = ident\<rparr>]
         else [])
      in \<lparr>isValid = (length errs = 0), errors = errs\<rparr>)"

definition limit_custom :: "(jsnum \<Rightarrow> string) \<Rightarrow> jsval \<Rightarrow> custom_result" where
  "limit_custom ns v =
     (if \<not> isDefined v then CBool True
      else case parseInt10 (ToString ns v) of
             None \<Rightarrow> CStr ''Limit must be a number between 1 and 100''
           | Some num \<Rightarrow>
               if num > 0 \<and> num \<le> 100 then CBool True
               else CStr ''Limit must be a number between 1 and 100'')"

definition offset_custom :: "(jsnum \<Rightarrow> string) \<Rightarrow> jsval \<Rightarrow> custom_result" where
  "offset_custom ns v =
     (if \<not> isDefined v then CBool True
      else case parseInt10 (ToString ns v) of
             None \<Rightarrow> CStr ''Offset must be a non-negative number''
           | Some num \<Rightarrow>
               if num \<ge> 0 then CBool True
               else CStr ''Offset must be a non-negative number'')"

definition listQuerySchema :: "(jsnum \<Rightarrow> string) \<Rightarrow> ValidationSchema" where
  "listQuerySchema ns =
     \<lparr>rules =
        [\<lparr>rfield = ''limit'', required = False, type_r = Some TyString,
          minLength = None, maxLength = None, min_r = None, max_r = None,
          pattern = None, enum_r = None, custom = Some (limit_custom ns)\<rparr>,
         \<lparr>rfield = ''offset'', required = False, type_r = Some TyString,
          minLength = None, maxLength = None, min_r = None, max_r = None,
          pattern = None, enum_r = None, custom = Some (offset_custom ns)\<rparr>,
         \<lparr>rfield = ''status'', required = False, type_r = Some TyString,
          minLength = None, maxLength = None, min_r = None, max_r = None,
          pattern = None, enum_r = Some [JStr ''active'', JStr ''inactive''],
          custom = None\<rparr>],
      strict = False\<rparr>"

text \<open>\<open>params || {}\<close>: a falsy argument is replaced by a new empty object.\<close>

definition validateListQueryParams :: "(jsnum \<Rightarrow> string) \<Rightarrow> jsval \<Rightarrow> ValidationResult" where
  "validateListQueryParams ns params =
     validateSchema ns (if truthy params then params else JObj []) (listQuerySchema ns)"

section \<open>Error taxonomy\<close>

text \<open>
  The eight concrete subclasses of \<open>ApiError\<close>, each built from its message; the status
  code and the error code are fixed by the class.
\<close>

datatype ApiError =
    ValidationError string
  | NotFoundError string
  | InternalServerError string
  | RateLimitError string
  | UnauthorizedError string
  | ForbiddenError string
  | BadRequestError string
  | ConflictError string

fun api_statusCode :: "ApiError \<Rightarrow> nat" where
  "api_statusCode (ValidationError m) = 400"
| "api_statusCode (NotFoundError m) = 404"
| "api_statusCode (InternalServerError m) = 500"
| "api_statusCode (RateLimitError m) = 429"
| "api_statusCode (UnauthorizedError m) = 401"
| "api_statusCode (ForbiddenError m) = 403"
| "api_statusCode (BadRequestError m) = 400"
| "api_statusCode (ConflictError m) = 409"

fun errorCode :: "ApiError \<Rightarrow> string" where
  "errorCode (ValidationError m) = ''VALIDATION_ERROR''"
| "errorCode (NotFoundError m) = ''NOT_FOUND''"
| "errorCode (InternalServerError m) = ''INTERNAL_SERVER_ERROR''"
| "errorCode (RateLimitError m) = ''RATE_LIMIT_EXCEEDED''"
| "errorCode (UnauthorizedError m) = ''UNAUTHORIZED''"
| "errorCode (ForbiddenError m) = ''FORBIDDEN''"
| "errorCode (BadRequestError m) = ''BAD_REQUEST''"
| "errorCode (ConflictError m) = ''CONFLICT''"

fun api_message :: "ApiError \<Rightarrow> string" where
  "api_message (ValidationError m) = m"
| "api_message (NotFoundError m) = m"
| "api_message (InternalServerError m) = m"
| "api_message (RateLimitError m) = m"
| "api_message (UnauthorizedError m) = m"
| "api_message (ForbiddenError m) = m"
| "api_message (BadRequestError m) = m"
| "api_message (ConflictError m) = m"

text \<open>
  The response of \<open>toResponse\<close>. Its body is the JSON text of an object with five
  members; the model keeps that object, and takes the current time that
  \<open>new Date().toISOString()\<close> reads as the parameter \<open>now\<close>.
\<close>

record ErrorResponseBody =
  success :: bool
  error :: string
  body_message :: string
  body_statusCode :: nat
  timestamp :: string

record APIGatewayProxyResult =
  statusCode :: nat
  headers :: "(string \<times> string) list"
  body :: ErrorResponseBody

definition toResponse :: "string \<Rightarrow> ApiError \<Rightarrow> APIGatewayProxyResult" where
  "toResponse now e =
     \<lparr>statusCode = api_statusCode e,
      headers = [(''Content-Type'', ''application/json''), (''Access-Control-Allow-Origin'', ''*'')],
      body = \<lparr>success = False, error = errorCode e, body_message = api_message e,
              body_statusCode = api_statusCode e, timestamp = now\<rparr>\<rparr>"

section \<open>handleError and createValidationError\<close>

text \<open>
  What a \<open>catch\<close> clause can receive: an instance of an \<open>ApiError\<close> subclass, another
  instance of \<open>Error\<close> with its message, or any value that is not an \<open>Error\<close>.
\<close>

datatype thrown = ThrownApiError ApiError | ThrownError string | ThrownOther jsval

fun isApiError :: "thrown \<Rightarrow> bool" where
  "isApiError (ThrownApiError e) = True"
| "isApiError t = False"

text \<open>\<open>error instanceof Error\<close>: \<open>ApiError\<close> extends \<open>Error\<close>.\<close>

fun instanceofError :: "thrown \<Rightarrow> bool" where
  "instanceofError (ThrownApiError e) = True"
| "instanceofError (ThrownError m) = True"
| "instanceofError (ThrownOther v) = False"

text \<open>The chain of keyword tests on the message of a plain \<open>Error\<close>.\<close>

definition classify_message :: "string \<Rightarrow> ApiError" where
  "classify_message m =
     (if str_includes m ''validation'' \<or> str_includes m ''invalid'' then ValidationError m
      else if str_includes m ''not found'' \<or> str_includes m ''does not exist'' then NotFoundError m
      else if str_includes m ''unauthorized'' \<or> str_includes m ''authentication'' then UnauthorizedError m
      else if str_includes m ''forbidden'' \<or> str_includes m ''permission'' then ForbiddenError m
      else if str_includes m ''conflict'' \<or> str_includes m ''already exists'' then ConflictError m
      else if str_includes m ''rate limit'' \<or> str_includes m ''throttle'' then RateLimitError m
      else InternalServerError (''Internal server error: '' @ m))"

fun handleError :: "string \<Rightarrow> thrown \<Rightarrow> APIGatewayProxyResult" where
  "handleError now (ThrownApiError e) = toResponse now e"
| "handleError now (ThrownError m) = toResponse now (classify_message m)"
| "handleError now (ThrownOther v) = toResponse now (InternalServerError ''An unexpected error occurred'')"

definition createValidationError :: "ValidationErrorDetail list \<Rightarrow> ApiError" where
  "createValidationError errs =
     ValidationError (''Validation failed: ''
        @ js_join '', '' (map (\<lambda>err. field err @ '': '' @ message err) errs))"

section \<open>Helpers for closed instances\<close>

text \<open>
  Number::toString on the numbers the rules of this repository contain: an integer
  below \<open>10^21\<close> in magnitude is its decimal numeral, NaN and the infinities are their
  names. The closed instances below render no other number; the general theorems hold
  for every rendering.
\<close>

definition digit_char :: "nat \<Rightarrow> char" where
  "digit_char d = ''0123456789'' ! d"

function decimal :: "nat \<Rightarrow> string" where
  "decimal n = (if n < 10 then [digit_char n] else decimal (n div 10) @ [digit_char (n mod 10)])"
  by pat_completeness auto
termination
  by (relation "measure (\<lambda>n. n)") auto

definition Number_toString :: "jsnum \<Rightarrow> string" where
  "Number_toString n =
     (case n of
        NaN \<Rightarrow> ''NaN''
      | PosInf \<Rightarrow> ''Infinity''
      | NegInf \<Rightarrow> ''-Infinity''
      | Fin q \<Rightarrow> (if q < 0 then ''-'' else []) @ decimal (nat \<bar>\<lfloor>q\<rfloor>\<bar>))"

text \<open>\<open>String.prototype.toLowerCase\<close> on the letters A to Z.\<close>

definition toLowerCase :: "string \<Rightarrow> string" where
  "toLowerCase s =
     map (\<lambda>c. if 65 \<le> (of_char c :: nat) \<and> (of_char c :: nat) \<le> 90
              then char_of ((of_char c :: nat) + 32) else c) s"

section \<open>Basic facts\<close>

lemma isObject_iff: "isObject v \<longleftrightarrow> (\<exists>kvs. v = JObj kvs)"
  by (cases v) (simp_all add: isObject_def)

lemma validateSchema_isValid_iff:
  "isValid (validateSchema ns dat schema) = (errors (validateSchema ns dat schema) = [])"
  by (simp add: validateSchema_def Let_def)

lemma validateItemId_isValid_iff:
  "isValid (validateItemId ident) = (errors (validateItemId ident) = [])"
  by (simp add: validateItemId_def Let_def)

text \<open>
  A rule may name a member that every object inherits: the empty object read at
  \<open>toString\<close> gives the built-in function, so a required rule for that field finds a
  value and reports nothing.
\<close>

lemma validateSchema_inherited_member:
  "validateSchema ns (JObj [])
     \<lparr>rules = [\<lparr>rfield = ''toString'', required = True, type_r = None,
                 minLength = None, maxLength = None, min_r = None, max_r = None,
                 pattern = None, enum_r = None, custom = None\<rparr>],
      strict = True\<rparr>
   = \<lparr>isValid = True, errors = []\<rparr>"
  by (simp add: validateSchema_def isObject_def rule_errors_def validateField_def isDefined_def
      object_prototype_def unknown_fields_def enum_check_def custom_check_def)

section \<open>Classification of plain errors\<close>

text \<open>
  Claim C1 says that the keywords are looked for in the lowercase of the message.
  \<open>handleError\<close> looks for them in the message itself. \<open>getJsonBody\<close> throws the
  plain error with message \<open>Invalid JSON format\<close> when the request body does not
  parse; its lowercase contains the keyword \<open>invalid\<close>, the message itself contains
  none of the keywords, and the response is the internal error 500 with the message
  after the prefix \<open>Internal server error: \<close>, where the claim gives the validation
  error 400.
\<close>

theorem handleError_invalid_json_format:
  "str_includes (toLowerCase ''Invalid JSON format'') ''invalid''
   \<and> statusCode (handleError ''2024-01-01T00:00:00.000Z'' (ThrownError ''Invalid JSON format'')) = 500
   \<and> error (body (handleError ''2024-01-01T00:00:00.000Z'' (ThrownError ''Invalid JSON format'')))
       = ''INTERNAL_SERVER_ERROR''
   \<and> body_message (body (handleError ''2024-01-01T00:00:00.000Z''
        (ThrownError ''Invalid JSON format''))) = ''Internal server error: Invalid JSON format''"
  by code_simp

section \<open>The create request with an empty name\<close>

text \<open>
  Claim C2, as the code has it. \<open>validateCreateItemRequest\<close> applied to the object
  with name \<open>""\<close> and description \<open>"ok"\<close> returns \<open>isValid = false\<close> and two errors,
  both for the field name: the empty string passes the type check, fails the minimum
  length 1, and fails the custom check, and these checks accumulate. The second message,
  \<open>Name cannot be empty\<close>, contains the word empty.
\<close>

theorem validateCreateItemRequest_empty_name:
  "validateCreateItemRequest ns (JObj [(''name'', JStr ''''), (''description'', JStr ''ok'')]) =
     \<lparr>isValid = False,
      errors =
        [\<lparr>field = ''name'',
          message = ''name must be at least '' @ ns (Fin 1) @ '' characters long'',
          value_d = JStr ''''\<rparr>,
         \<lparr>field = ''name'', message = ''Name cannot be empty'', value_d = JStr ''''\<rparr>]\<rparr>
   \<and> str_includes ''Name cannot be empty'' ''empty''"
  by (simp add: validateCreateItemRequest_def validateSchema_def createItemSchema_def isObject_def
      rule_errors_def validateField_def isDefined_def isString_def mk_error_def num_truthy_def
      enum_check_def custom_check_def trim_def is_whitespace_def unknown_fields_def)

theorem validateCreateItemRequest_empty_name_witness:
  "validateCreateItemRequest Number_toString
     (JObj [(''name'', JStr ''''), (''description'', JStr ''ok'')]) =
     \<lparr>isValid = False,
      errors =
        [\<lparr>field = ''name'', message = ''name must be at least 1 characters long'',
          value_d = JStr ''''\<rparr>,
         \<lparr>field = ''name'', message = ''Name cannot be empty'', value_d = JStr ''''\<rparr>]\<rparr>"
  using validateCreateItemRequest_empty_name [of Number_toString]
  by (simp add: Number_toString_def digit_char_def)

text \<open>The errors list of that call has two elements, not one.\<close>

theorem validateCreateItemRequest_empty_name_counterexample:
  "length (errors (validateCreateItemRequest Number_toString
      (JObj [(''name'', JStr ''''), (''description'', JStr ''ok'')]))) = 2"
  by code_simp

section \<open>Aggregation of validation errors\<close>

text \<open>
  Claim C3, as the code has it. For every non-empty list of details,
  \<open>createValidationError\<close> returns a validation error (status code 400, error code
  \<open>VALIDATION_ERROR\<close>) whose message is the prefix \<open>Validation failed: \<close> followed by
  the \<open>field: message\<close> pairs, in the order of the list, joined with a comma and a
  space.
\<close>

theorem createValidationError_message:
  "errs \<noteq> [] \<Longrightarrow>
     api_statusCode (createValidationError errs) = 400
     \<and> errorCode (createValidationError errs) = ''VALIDATION_ERROR''
     \<and> api_message (createValidationError errs) =
         ''Validation failed: '' @ js_join '', '' (map (\<lambda>e. field e @ '': '' @ message e) errs)"
  by (simp add: createValidationError_def)

theorem createValidationError_message_witness:
  "[\<lparr>field = ''name'', message = ''Name is required'', value_d = JUndefined\<rparr>,
    \<lparr>field = ''email'', message = ''Invalid email format'', value_d = JUndefined\<rparr>] \<noteq> []
   \<and> api_statusCode (createValidationError
        [\<lparr>field = ''name'', message = ''Name is required'', value_d = JUndefined\<rparr>,
         \<lparr>field = ''email'', message = ''Invalid email format'', value_d = JUndefined\<rparr>]) = 400
   \<and> api_message (createValidationError
        [\<lparr>field = ''name'', message = ''Name is required'', value_d = JUndefined\<rparr>,
         \<lparr>field = ''email'', message = ''Invalid email format'', value_d = JUndefined\<rparr>])
      = ''Validation failed: name: Name is required, email: Invalid email format''"
  using createValidationError_message
    [of "[\<lparr>field = ''name'', message = ''Name is required'', value_d = JUndefined\<rparr>,
          \<lparr>field = ''email'', message = ''Invalid email format'', value_d = JUndefined\<rparr>]"]
  by simp

text \<open>
  For a single detail the joined pairs are \<open>name: Name is required\<close>; the message of
  the error is not that text, since it starts with the prefix.
\<close>

theorem createValidationError_exact_counterexample:
  "api_message (createValidationError
      [\<lparr>field = ''name'', message = ''Name is required'', value_d = JUndefined\<rparr>])
   \<noteq> ''name: Name is required''"
  by (simp add: createValidationError_def)

section \<open>Type mismatch in validateField\<close>

text \<open>
  Claim C4. For every rule that specifies a type and every present value (neither
  \<open>null\<close> nor \<open>undefined\<close>) whose runtime type does not match it, \<open>validateField\<close>
  returns exactly one error, the type-mismatch error. None of the length, range,
  pattern, enum or custom checks runs: the result stays the same whatever the rule holds
  in those members.
\<close>

theorem validateField_type_mismatch:
  assumes "type_r rule = Some t" and "isDefined v" and "\<not> isValidType t v"
  shows "validateField ns v rule =
           [\<lparr>field = rfield rule, message = rfield rule @ '' must be of type '' @ type_name t,
             value_d = v\<rparr>]
         \<and> validateField ns v
             (rule\<lparr>minLength := a, maxLength := b, min_r := c, max_r := d,
                   pattern := p, enum_r := e, custom := f\<rparr>) = validateField ns v rule"
  using assms by (simp add: validateField_def mk_error_def)

theorem validateField_type_mismatch_witness:
  "validateField Number_toString (JNum (Fin 123))
     \<lparr>rfield = ''name'', required = True, type_r = Some TyString,
      minLength = Some (Fin 1), maxLength = Some (Fin 2), min_r = Some (Fin 200), max_r = Some (Fin 5),
      pattern = Some (\<lambda>s. False), enum_r = Some [JStr ''a''],
      custom = Some (\<lambda>v. CStr ''never shown'')\<rparr>
   = [\<lparr>field = ''name'', message = ''name must be of type string'', value_d = JNum (Fin 123)\<rparr>]"
  using validateField_type_mismatch
    [of "\<lparr>rfield = ''name'', required = True, type_r = Some TyString,
      minLength = Some (Fin 1), maxLength = Some (Fin 2), min_r = Some (Fin 200), max_r = Some (Fin 5),
      pattern = Some (\<lambda>s. False), enum_r = Some [JStr ''a''],
      custom = Some (\<lambda>v. CStr ''never shown'')\<rparr>" TyString "JNum (Fin 123)" Number_toString]
  by (simp add: isDefined_def isString_def)

section \<open>The validity flag\<close>

text \<open>
  Claim C5. For every input and every schema the result of \<open>validateSchema\<close> has
  \<open>isValid\<close> true exactly when its errors list is empty, and so have the results of
  \<open>validateItemId\<close> and of the three domain validators built on \<open>validateSchema\<close>.
\<close>

theorem validation_results_isValid_iff:
  "isValid (validateSchema ns dat schema) = (errors (validateSchema ns dat schema) = [])
   \<and> isValid (validateItemId ident) = (errors (validateItemId ident) = [])
   \<and> isValid (validateCreateItemRequest ns dat) = (errors (validateCreateItemRequest ns dat) = [])
   \<and> isValid (validateUpdateItemRequest ns dat) = (errors (validateUpdateItemRequest ns dat) = [])
   \<and> isValid (validateListQueryParams ns dat) = (errors (validateListQueryParams ns dat) = [])"
  by (simp only: validateCreateItemRequest_def validateUpdateItemRequest_def
      validateListQueryParams_def validateSchema_isValid_iff validateItemId_isValid_iff simp_thms)

theorem validation_results_isValid_iff_witness:
  "isValid (validateSchema Number_toString (JStr ''not an object'') createItemSchema)
     = (errors (validateSchema Number_toString (JStr ''not an object'') createItemSchema) = [])
   \<and> isValid (validateItemId (JNum (Fin 123))) = (errors (validateItemId (JNum (Fin 123))) = [])
   \<and> isValid (validateCreateItemRequest Number_toString (JStr ''not an object''))
     = (errors (validateCreateItemRequest Number_toString (JStr ''not an object'')) = [])
   \<and> isValid (validateUpdateItemRequest Number_toString (JStr ''not an object''))
     = (errors (validateUpdateItemRequest Number_toString (JStr ''not an object'')) = [])
   \<and> isValid (validateListQueryParams Number_toString (JStr ''not an object''))
     = (errors (validateListQueryParams Number_toString (JStr ''not an object'')) = [])"
  by (rule validation_results_isValid_iff
      [of Number_toString "JStr ''not an object''" createItemSchema "JNum (Fin 123)"])

section \<open>Input that is not an object\<close>

text \<open>
  Claim C6. For every input that is not a structured object (\<open>undefined\<close>, \<open>null\<close>,
  a boolean, a number, a string or an array), \<open>validateSchema\<close> returns
  \<open>isValid = false\<close> with exactly one error, whose field is \<open>root\<close> and whose message
  is \<open>Data must be an object\<close>. The result is the same for every schema: no rule is
  evaluated.
\<close>

theorem validateSchema_not_object:
  assumes "\<not> isObject dat"
  shows "validateSchema ns dat schema =
           \<lparr>isValid = False,
            errors = [\<lparr>field = ''root'', message = ''Data must be an object'', value_d = dat\<rparr>]\<rparr>"
  using assms by (simp add: validateSchema_def)

theorem validateSchema_not_object_witness:
  "\<not> isObject (JArr [JStr ''a''])
   \<and> validateSchema Number_toString (JArr [JStr ''a'']) createItemSchema =
       \<lparr>isValid = False,
        errors = [\<lparr>field = ''root'', message = ''Data must be an object'',
                  value_d = JArr [JStr ''a'']\<rparr>]\<rparr>"
  using validateSchema_not_object [of "JArr [JStr ''a'']" Number_toString createItemSchema]
  by (simp add: isObject_def)

section \<open>Unknown fields under a strict schema\<close>

text \<open>
  Claim C7. For every strict schema and every object, the errors of \<open>validateSchema\<close>
  are the errors of the rules, in rule order, each rule applied to what the object
  reads at the rule's field, followed by one error for each own key of the object that
  no rule names, in the key order of the object, with that key as field and
  the message \<open>Unknown field: \<close> followed by the key. In particular
  \<open>validateCreateItemRequest\<close> applied to the object with name \<open>"a"\<close>, description
  \<open>"b"\<close> and extra \<open>"x"\<close> returns \<open>isValid = false\<close> with the one error for the
  field extra, whose message contains \<open>Unknown field\<close>.
\<close>

theorem validateSchema_strict_unknown_fields:
  assumes "strict schema" and "isObject dat"
  shows "errors (validateSchema ns dat schema) =
           concat (map (\<lambda>rule. validateField ns (get_prop dat (rfield rule)) rule) (rules schema))
           @ map (\<lambda>f. \<lparr>field = f, message = ''Unknown field: '' @ f, value_d = get_prop dat f\<rparr>)
               (filter (\<lambda>f. f \<notin> set (map rfield (rules schema))) (object_keys dat))
         \<and> validateCreateItemRequest ns
             (JObj [(''name'', JStr ''a''), (''description'', JStr ''b''), (''extra'', JStr ''x'')]) =
             \<lparr>isValid = False,
              errors = [\<lparr>field = ''extra'', message = ''Unknown field: extra'',
                        value_d = JStr ''x''\<rparr>]\<rparr>
         \<and> str_includes ''Unknown field: extra'' ''Unknown field''"
proof -
  have general: "errors (validateSchema ns dat schema) =
           concat (map (\<lambda>rule. validateField ns (get_prop dat (rfield rule)) rule) (rules schema))
           @ map (\<lambda>f. \<lparr>field = f, message = ''Unknown field: '' @ f, value_d = get_prop dat f\<rparr>)
               (filter (\<lambda>f. f \<notin> set (map rfield (rules schema))) (object_keys dat))"
    using assms by (simp add: validateSchema_def Let_def rule_errors_def unknown_fields_def)
  have scenario: "validateCreateItemRequest ns
             (JObj [(''name'', JStr ''a''), (''description'', JStr ''b''), (''extra'', JStr ''x'')]) =
             \<lparr>isValid = False,
              errors = [\<lparr>field = ''extra'', message = ''Unknown field: extra'',
                        value_d = JStr ''x''\<rparr>]\<rparr>"
    by (simp add: validateCreateItemRequest_def validateSchema_def createItemSchema_def isObject_def
      rule_errors_def validateField_def isDefined_def isString_def mk_error_def num_truthy_def
      enum_check_def custom_check_def trim_def is_whitespace_def unknown_fields_def)
  have "str_includes ''Unknown field: extra'' ''Unknown field''" by simp
  with general scenario show ?thesis by blast
qed

text \<open>
  An instance with two unknown keys around a known one, and a rule that fails: the rule
  error comes first, then the unknown keys in the order of the object.
\<close>

theorem validateSchema_strict_unknown_fields_witness:
  "strict createItemSchema
   \<and> isObject (JObj [(''zeta'', JNull), (''name'', JStr ''a''), (''alpha'', JBool True)])
   \<and> errors (validateSchema Number_toString
        (JObj [(''zeta'', JNull), (''name'', JStr ''a''), (''alpha'', JBool True)]) createItemSchema) =
       [\<lparr>field = ''description'', message = ''description is required'', value_d = JUndefined\<rparr>,
        \<lparr>field = ''zeta'', message = ''Unknown field: zeta'', value_d = JNull\<rparr>,
        \<lparr>field = ''alpha'', message = ''Unknown field: alpha'', value_d = JBool True\<rparr>]"
  using validateSchema_strict_unknown_fields
    [of createItemSchema "JObj [(''zeta'', JNull), (''name'', JStr ''a''), (''alpha'', JBool True)]"
        Number_toString]
  by (simp add: createItemSchema_def isObject_def validateField_def isDefined_def isString_def
      mk_error_def num_truthy_def enum_check_def custom_check_def trim_def is_whitespace_def
      object_prototype_def)

section \<open>Classification followed by the response\<close>

text \<open>
  Claim C8. \<open>handleError\<close> applied to the plain error with message \<open>item not found\<close>
  yields a response with status code 404 whose body has the error code \<open>NOT_FOUND\<close>.
\<close>

theorem handleError_item_not_found:
  "statusCode (handleError now (ThrownError ''item not found'')) = 404
   \<and> error (body (handleError now (ThrownError ''item not found''))) = ''NOT_FOUND''"
  by (simp add: classify_message_def toResponse_def)

theorem handleError_item_not_found_witness:
  "statusCode (handleError ''2024-01-01T00:00:00.000Z'' (ThrownError ''item not found'')) = 404
   \<and> error (body (handleError ''2024-01-01T00:00:00.000Z'' (ThrownError ''item not found'')))
       = ''NOT_FOUND''"
  by (rule handleError_item_not_found [of "''2024-01-01T00:00:00.000Z''"])

section \<open>The fallback for values that are not errors\<close>

text \<open>
  Claim C9. A thrown value that is not an instance of \<open>Error\<close> (so neither one of the
  eight typed kinds nor a plain error whose message is classified) is answered with the
  internal error: status code 500, error code \<open>INTERNAL_SERVER_ERROR\<close>, and the generic
  message \<open>An unexpected error occurred\<close>.
\<close>

theorem handleError_unclassified:
  assumes "\<not> instanceofError t"
  shows "statusCode (handleError now t) = 500
         \<and> error (body (handleError now t)) = ''INTERNAL_SERVER_ERROR''
         \<and> body_message (body (handleError now t)) = ''An unexpected error occurred''"
  using assms by (cases t) (simp_all add: toResponse_def)

theorem handleError_unclassified_witness:
  "\<not> instanceofError (ThrownOther (JStr ''string error''))
   \<and> statusCode (handleError ''2024-01-01T00:00:00.000Z'' (ThrownOther (JStr ''string error''))) = 500
   \<and> body_message (body (handleError ''2024-01-01T00:00:00.000Z''
        (ThrownOther (JStr ''string error'')))) = ''An unexpected error occurred''"
  using handleError_unclassified
    [of "ThrownOther (JStr ''string error'')" "''2024-01-01T00:00:00.000Z''"]
  by simp

section \<open>List query validation without a parameter bag\<close>

text \<open>
  Claim C10. \<open>validateListQueryParams\<close> applied to \<open>null\<close> or to \<open>undefined\<close> returns
  \<open>isValid = true\<close> with no error: the absent bag is replaced by an empty object before
  the schema is applied. \<open>validateSchema\<close> applied to \<open>null\<close> itself, with the same
  schema, returns the root error \<open>Data must be an object\<close>.
\<close>

theorem validateListQueryParams_absent:
  "validateListQueryParams ns JNull = \<lparr>isValid = True, errors = []\<rparr>
   \<and> validateListQueryParams ns JUndefined = \<lparr>isValid = True, errors = []\<rparr>
   \<and> validateSchema ns JNull (listQuerySchema ns) =
       \<lparr>isValid = False,
        errors = [\<lparr>field = ''root'', message = ''Data must be an object'', value_d = JNull\<rparr>]\<rparr>"
  by (simp add: validateListQueryParams_def validateSchema_def listQuerySchema_def isObject_def
      rule_errors_def validateField_def isDefined_def object_prototype_def)

theorem validateListQueryParams_absent_witness:
  "validateListQueryParams Number_toString JNull = \<lparr>isValid = True, errors = []\<rparr>
   \<and> validateListQueryParams Number_toString JUndefined = \<lparr>isValid = True, errors = []\<rparr>
   \<and> validateSchema Number_toString JNull (listQuerySchema Number_toString) =
       \<lparr>isValid = False,
        errors = [\<lparr>field = ''root'', message = ''Data must be an object'', value_d = JNull\<rparr>]\<rparr>"
  by (rule validateListQueryParams_absent [of Number_toString])

end
